theory Spec2Isabelle
  imports Main "HOL-Library.Sublist"
begin

section \<open>End-of-life client: data model\<close>

text \<open>
  The development embeds \<^verbatim>\<open>src/mcp_server_eol/client.py\<close>: the pydantic models, the
  two status evaluators \<^verbatim>\<open>_is_version_supported\<close> and \<^verbatim>\<open>_is_version_eol\<close> (named
  here without the leading underscore), and the lookup \<^verbatim>\<open>check_support_status\<close> with the
  two fetches it is built on.

  Exceptions are values. \<open>ValueError\<close> and \<open>TypeError\<close> are the two classes the evaluators
  catch, \<open>ValidationError\<close> is what a pydantic constructor raises, \<open>HTTPStatusError\<close>
  carries the status code that \<^verbatim>\<open>raise_for_status\<close> saw, and \<open>TransportError\<close> stands
  for every other failure of the HTTP client.
\<close>

datatype exn = ValueError | TypeError | ValidationError | HTTPStatusError nat | TransportError

text \<open>
  A \<^verbatim>\<open>datetime.date\<close> is its three fields; Python orders dates as the tuples
  \<open>(year, month, day)\<close>. \<open>date_le a b\<close> is \<^verbatim>\<open>a <= b\<close> and \<open>date_gt a b\<close> is
  \<^verbatim>\<open>a > b\<close>.
\<close>

record date =
  year :: nat
  month :: nat
  day :: nat

definition date_le :: "date \<Rightarrow> date \<Rightarrow> bool" where
  "date_le a b \<longleftrightarrow>
     year a < year b \<or>
     (year a = year b \<and> (month a < month b \<or> (month a = month b \<and> day a \<le> day b)))"

definition date_gt :: "date \<Rightarrow> date \<Rightarrow> bool" where
  "date_gt a b \<longleftrightarrow>
     year a > year b \<or>
     (year a = year b \<and> (month a > month b \<or> (month a = month b \<and> day a > day b)))"

text \<open>
  The calendar of the \<^verbatim>\<open>datetime\<close> module, used to speak about "the day after \<open>D\<close>"
  (\<^verbatim>\<open>D + timedelta(days=1)\<close>).
\<close>

definition is_leap :: "nat \<Rightarrow> bool" where
  "is_leap y \<longleftrightarrow> y mod 4 = 0 \<and> (y mod 100 \<noteq> 0 \<or> y mod 400 = 0)"

definition days_in_month :: "nat \<Rightarrow> nat \<Rightarrow> nat" where
  "days_in_month y m =
     (if m = 2 then (if is_leap y then 29 else 28)
      else if m = 4 \<or> m = 6 \<or> m = 9 \<or> m = 11 then 30 else 31)"

definition valid_date :: "date \<Rightarrow> bool" where
  "valid_date d \<longleftrightarrow>
     1 \<le> year d \<and> year d \<le> 9999 \<and> 1 \<le> month d \<and> month d \<le> 12 \<and>
     1 \<le> day d \<and> day d \<le> days_in_month (year d) (month d)"

definition next_day :: "date \<Rightarrow> date" where
  "next_day d =
     (if day d < days_in_month (year d) (month d) then d\<lparr>day := day d + 1\<rparr>
      else if month d < 12 then d\<lparr>month := month d + 1, day := 1\<rparr>
      else \<lparr>year = year d + 1, month = 1, day = 1\<rparr>)"

text \<open>
  A \<^verbatim>\<open>datetime.datetime\<close>: the date, the time of day and the offset from UTC in minutes
  (\<open>None\<close> for a naive value). \<^verbatim>\<open>.date()\<close> is the field \<open>dt_date\<close>.
\<close>

record datetime =
  dt_date :: date
  dt_hour :: nat
  dt_minute :: nat
  dt_second :: nat
  dt_utcoffset :: "int option"

text \<open>
  \<^verbatim>\<open>datetime.fromisoformat\<close> belongs to the standard library, and what it accepts
  depends on the interpreter's version. The evaluators take it as a parameter: a function
  from the string to the parsed value or to the exception raised.
\<close>

type_synonym fromisoformat = "string \<Rightarrow> exn + datetime"

text \<open>
  The union-typed fields of \<^verbatim>\<open>CycleInfo\<close>: \<^verbatim>\<open>Union[str, date, bool]\<close> for \<open>eol\<close>,
  \<open>support\<close> and \<open>lts\<close>, \<^verbatim>\<open>Union[str, date]\<close> for the two release dates. \<open>None\<close> of
  the enclosing option is Python's \<^verbatim>\<open>None\<close>.
\<close>

datatype status_field = PyBool bool | PyStr string | PyDate date

datatype date_field = DStr string | DDate date

record CycleInfo =
  cycle :: string
  release_date :: "date_field option"
  eol :: "status_field option"
  latest :: "string option"
  latest_release_date :: "date_field option"
  lts :: "status_field option"
  support :: "status_field option"

record ProductInfo =
  pi_product :: string
  versions :: "CycleInfo list"
  count :: nat

record SupportStatus =
  product :: string
  version :: string
  found :: bool
  cycle_info :: "CycleInfo option"
  is_supported :: bool
  is_eol :: bool

record CycleDetails =
  cd_product :: string
  cd_cycle :: string
  details :: CycleInfo

section \<open>The status evaluators\<close>

text \<open>\<^verbatim>\<open>s.replace('Z', '+00:00')\<close>: every occurrence of the character is replaced.\<close>

fun replace_Z :: "string \<Rightarrow> string" where
  "replace_Z [] = []"
| "replace_Z (ch # s) =
     (if ch = CHR ''Z'' then ''+00:00'' @ replace_Z s else ch # replace_Z s)"

text \<open>
  The second half of \<^verbatim>\<open>_is_version_supported\<close>, from the comment
  \<^verbatim>\<open># Check EOL date as fallback\<close> to the final \<^verbatim>\<open>return False\<close>. An exception of the
  parser that the \<^verbatim>\<open>except (ValueError, TypeError)\<close> clause does not name leaves the
  function.
\<close>

definition supported_from_eol :: "fromisoformat \<Rightarrow> date \<Rightarrow> CycleInfo \<Rightarrow> exn + bool" where
  "supported_from_eol parse today info =
     (case eol info of
        None \<Rightarrow> Inr False
      | Some (PyBool b) \<Rightarrow> Inr (\<not> b)
      | Some (PyStr s) \<Rightarrow>
          (case parse (replace_Z s) of
             Inr dt \<Rightarrow> Inr (date_le today (dt_date dt))
           | Inl e \<Rightarrow> if e = ValueError \<or> e = TypeError then Inr False else Inl e)
      | Some (PyDate eol_end) \<Rightarrow> Inr (date_le today eol_end))"

definition is_version_supported :: "fromisoformat \<Rightarrow> date \<Rightarrow> CycleInfo \<Rightarrow> exn + bool" where
  "is_version_supported parse today info =
     (case support info of
        None \<Rightarrow> supported_from_eol parse today info
      | Some (PyBool b) \<Rightarrow> Inr b
      | Some (PyStr s) \<Rightarrow>
          (case parse (replace_Z s) of
             Inr dt \<Rightarrow> Inr (date_le today (dt_date dt))
           | Inl e \<Rightarrow>
               if e = ValueError \<or> e = TypeError
               then supported_from_eol parse today info else Inl e)
      | Some (PyDate support_end) \<Rightarrow> Inr (date_le today support_end))"

definition is_version_eol :: "fromisoformat \<Rightarrow> date \<Rightarrow> CycleInfo \<Rightarrow> exn + bool" where
  "is_version_eol parse today info =
     (case eol info of
        None \<Rightarrow> Inr False
      | Some (PyBool b) \<Rightarrow> Inr b
      | Some (PyStr s) \<Rightarrow>
          (case parse (replace_Z s) of
             Inr dt \<Rightarrow> Inr (date_gt today (dt_date dt))
           | Inl e \<Rightarrow> if e = ValueError \<or> e = TypeError then Inr False else Inl e)
      | Some (PyDate eol_end) \<Rightarrow> Inr (date_gt today eol_end))"

text \<open>
  What the standard library documents of \<^verbatim>\<open>datetime.fromisoformat\<close>: on a string it
  cannot read it raises \<open>ValueError\<close> (and \<open>TypeError\<close> on an argument that is no string).
\<close>

definition raises_only_value_or_type_error :: "fromisoformat \<Rightarrow> bool" where
  "raises_only_value_or_type_error parse \<longleftrightarrow>
     (\<forall>s e. parse s = Inl e \<longrightarrow> e = ValueError \<or> e = TypeError)"

text \<open>
  A field yields no usable value when it is \<^verbatim>\<open>None\<close> or a string the parser rejects.
\<close>

definition unusable :: "fromisoformat \<Rightarrow> status_field option \<Rightarrow> bool" where
  "unusable parse v =
     (case v of
        None \<Rightarrow> True
      | Some (PyStr s) \<Rightarrow> (case parse (replace_Z s) of Inl e \<Rightarrow> True | Inr dt \<Rightarrow> False)
      | Some (PyBool b) \<Rightarrow> False
      | Some (PyDate d) \<Rightarrow> False)"

text \<open>
  A field holds the date \<open>D\<close> when it is the date value \<open>D\<close>, or a string that the
  parser reads, after the replacement, as a datetime on the date \<open>D\<close>.
\<close>

definition reads_as_date :: "fromisoformat \<Rightarrow> status_field option \<Rightarrow> date \<Rightarrow> bool" where
  "reads_as_date parse v D =
     (case v of
        None \<Rightarrow> False
      | Some (PyBool b) \<Rightarrow> False
      | Some (PyStr s) \<Rightarrow> (case parse (replace_Z s) of Inl e \<Rightarrow> False | Inr dt \<Rightarrow> dt_date dt = D)
      | Some (PyDate d) \<Rightarrow> d = D)"

section \<open>Building records from the catalog's JSON\<close>

text \<open>
  A raw cycle is the dictionary that \<^verbatim>\<open>response.json()\<close> gives for one entry of the
  catalog: keys to JSON values. The values of the catalog are \<^verbatim>\<open>null\<close>, booleans and
  strings.
\<close>

datatype jvalue = JNull | JBool bool | JStr string

type_synonym raw_cycle = "string \<rightharpoonup> jvalue"

text \<open>
  \<^verbatim>\<open>CycleInfo(**version_data)\<close>. The validation is pydantic's (version 2, which the
  server's \<^verbatim>\<open>model_dump_json\<close> and the \<^verbatim>\<open>populate_by_name\<close> setting belong to): a
  \<^verbatim>\<open>str\<close> field takes a string only; a union takes the member whose type the value
  has; an optional field that is missing or \<^verbatim>\<open>null\<close> is \<^verbatim>\<open>None\<close>; a key the model
  does not declare is ignored; every failure is a \<open>ValidationError\<close>. A field with an
  alias is read under the alias, or under its own name (\<^verbatim>\<open>populate_by_name\<close>).
\<close>

definition validate_optional_str :: "jvalue option \<Rightarrow> exn + string option" where
  "validate_optional_str v =
     (case v of
        None \<Rightarrow> Inr None
      | Some JNull \<Rightarrow> Inr None
      | Some (JStr s) \<Rightarrow> Inr (Some s)
      | Some (JBool b) \<Rightarrow> Inl ValidationError)"

definition validate_date_field :: "jvalue option \<Rightarrow> exn + date_field option" where
  "validate_date_field v =
     (case v of
        None \<Rightarrow> Inr None
      | Some JNull \<Rightarrow> Inr None
      | Some (JStr s) \<Rightarrow> Inr (Some (DStr s))
      | Some (JBool b) \<Rightarrow> Inl ValidationError)"

definition validate_status_field :: "jvalue option \<Rightarrow> exn + status_field option" where
  "validate_status_field v =
     (case v of
        None \<Rightarrow> Inr None
      | Some JNull \<Rightarrow> Inr None
      | Some (JStr s) \<Rightarrow> Inr (Some (PyStr s))
      | Some (JBool b) \<Rightarrow> Inr (Some (PyBool b)))"

definition by_alias :: "raw_cycle \<Rightarrow> string \<Rightarrow> string \<Rightarrow> jvalue option" where
  "by_alias kwargs alias name =
     (case kwargs alias of Some v \<Rightarrow> Some v | None \<Rightarrow> kwargs name)"

definition CycleInfo_init :: "raw_cycle \<Rightarrow> exn + CycleInfo" where
  "CycleInfo_init kwargs =
     (case kwargs ''cycle'' of
        Some (JStr c) \<Rightarrow>
          (case (validate_date_field (by_alias kwargs ''releaseDate'' ''release_date''),
                 validate_status_field (kwargs ''eol''),
                 validate_optional_str (kwargs ''latest''),
                 validate_date_field (by_alias kwargs ''latestReleaseDate'' ''latest_release_date''),
                 validate_status_field (kwargs ''lts''),
                 validate_status_field (kwargs ''support'')) of
             (Inr rd, Inr e, Inr l, Inr lrd, Inr lt, Inr s) \<Rightarrow>
               Inr \<lparr>cycle = c, release_date = rd, eol = e, latest = l,
                    latest_release_date = lrd, lts = lt, support = s\<rparr>
           | _ \<Rightarrow> Inl ValidationError)
      | _ \<Rightarrow> Inl ValidationError)"

section \<open>The client\<close>

text \<open>
  The catalog is the remote service as the client sees it. \<open>cycle_json product cycle\<close> is
  the outcome of \<^verbatim>\<open>GET {base_url}/{product}/{cycle}.json\<close>, \<^verbatim>\<open>raise_for_status()\<close> and
  \<^verbatim>\<open>json()\<close>; \<open>product_json product\<close> is the same for \<^verbatim>\<open>{base_url}/{product}.json\<close>.
  A status that \<^verbatim>\<open>raise_for_status\<close> rejects is \<open>Inl (HTTPStatusError code)\<close>.
\<close>

record catalog =
  cycle_json :: "string \<Rightarrow> string \<Rightarrow> exn + raw_cycle"
  product_json :: "string \<Rightarrow> exn + raw_cycle list"

text \<open>
  The loop of \<^verbatim>\<open>get_product_versions\<close>: each raw cycle is converted and appended; an
  exception of the constructor ends the loop.
\<close>

fun convert_cycles :: "CycleInfo list \<Rightarrow> raw_cycle list \<Rightarrow> exn + CycleInfo list" where
  "convert_cycles cycles [] = Inr cycles"
| "convert_cycles cycles (version_data # rest) =
     (case CycleInfo_init version_data of
        Inl e \<Rightarrow> Inl e
      | Inr info \<Rightarrow> convert_cycles (cycles @ [info]) rest)"

text \<open>
  \<^verbatim>\<open>except Exception as e: logger.error(...); raise\<close> hands every exception on
  unchanged; the log line is not part of the model.
\<close>

definition get_product_versions :: "catalog \<Rightarrow> string \<Rightarrow> exn + ProductInfo" where
  "get_product_versions cat pname =
     (case product_json cat pname of
        Inl e \<Rightarrow> Inl e
      | Inr versions_data \<Rightarrow>
          (case convert_cycles [] versions_data of
             Inl e \<Rightarrow> Inl e
           | Inr cycles \<Rightarrow>
               Inr \<lparr>pi_product = pname, versions = cycles, count = length cycles\<rparr>))"

text \<open>
  \<^verbatim>\<open>CycleInfo(cycle=cycle, **cycle_data)\<close>: a \<^verbatim>\<open>cycle\<close> key in the fetched
  dictionary is a second value for the same keyword argument, a \<open>TypeError\<close>.
\<close>

definition get_cycle_details :: "catalog \<Rightarrow> string \<Rightarrow> string \<Rightarrow> exn + CycleDetails" where
  "get_cycle_details cat pname cyc =
     (case cycle_json cat pname cyc of
        Inl e \<Rightarrow> Inl e
      | Inr cycle_data \<Rightarrow>
          (case cycle_data ''cycle'' of
             Some v \<Rightarrow> Inl TypeError
           | None \<Rightarrow>
               (case CycleInfo_init (cycle_data(''cycle'' \<mapsto> JStr cyc)) of
                  Inl e \<Rightarrow> Inl e
                | Inr info \<Rightarrow> Inr \<lparr>cd_product = pname, cd_cycle = cyc, details = info\<rparr>)))"

text \<open>
  The \<^verbatim>\<open>SupportStatus(..., found=True, ...)\<close> that \<^verbatim>\<open>check_support_status\<close> builds in
  two places: the arguments are evaluated in order, and an exception of an evaluator
  leaves the constructor call.
\<close>

definition found_status ::
  "fromisoformat \<Rightarrow> date \<Rightarrow> string \<Rightarrow> string \<Rightarrow> CycleInfo \<Rightarrow> exn + SupportStatus" where
  "found_status parse today pname ver info =
     (case is_version_supported parse today info of
        Inl e \<Rightarrow> Inl e
      | Inr supported \<Rightarrow>
          (case is_version_eol parse today info of
             Inl e \<Rightarrow> Inl e
           | Inr e \<Rightarrow>
               Inr \<lparr>product = pname, version = ver, found = True, cycle_info = Some info,
                    is_supported = supported, is_eol = e\<rparr>))"

text \<open>The condition of the \<^verbatim>\<open>if\<close> inside the loop over \<^verbatim>\<open>product_info.versions\<close>.\<close>

definition cycle_matches :: "string \<Rightarrow> CycleInfo \<Rightarrow> bool" where
  "cycle_matches ver c \<longleftrightarrow> cycle c = ver \<or> latest c = Some ver \<or> prefix ver (cycle c)"

text \<open>
  The loop itself with the statement after it: the first record that satisfies the
  condition is returned from inside the loop; when the loop runs out, the "version not
  found" status is returned.
\<close>

fun search_versions ::
  "fromisoformat \<Rightarrow> date \<Rightarrow> string \<Rightarrow> string \<Rightarrow> CycleInfo list \<Rightarrow> exn + SupportStatus" where
  "search_versions parse today pname ver [] =
     Inr \<lparr>product = pname, version = ver, found = False, cycle_info = None,
          is_supported = False, is_eol = True\<rparr>"
| "search_versions parse today pname ver (c # rest) =
     (if cycle_matches ver c then found_status parse today pname ver c
      else search_versions parse today pname ver rest)"

text \<open>
  \<^verbatim>\<open>check_support_status\<close>. The inner \<^verbatim>\<open>try\<close> holds the single-cycle lookup and the
  status built from it; its handler takes \<open>HTTPStatusError\<close> only, continues with the
  product's list on status 404 and raises again on every other status. Whatever leaves
  the inner statement passes the outer handler unchanged.
\<close>

definition check_support_status ::
  "fromisoformat \<Rightarrow> date \<Rightarrow> catalog \<Rightarrow> string \<Rightarrow> string \<Rightarrow> exn + SupportStatus" where
  "check_support_status parse today cat pname ver =
     (case (case get_cycle_details cat pname ver of
              Inl e \<Rightarrow> Inl e
            | Inr cycle_details \<Rightarrow> found_status parse today pname ver (details cycle_details)) of
        Inr status \<Rightarrow> Inr status
      | Inl (HTTPStatusError code) \<Rightarrow>
          if code = 404 then
            (case get_product_versions cat pname of
               Inl e \<Rightarrow> Inl e
             | Inr product_info \<Rightarrow>
                 search_versions parse today pname ver (versions product_info))
          else Inl (HTTPStatusError code)
      | Inl e \<Rightarrow> Inl e)"

section \<open>A parser to run the evaluators on\<close>

text \<open>
  One function of the parameter's type, for evaluating the model on concrete records: it
  reads \<^verbatim>\<open>YYYY-MM-DD\<close>, optionally followed by one separator character and \<^verbatim>\<open>HH:MM:SS\<close>,
  optionally followed by an offset \<^verbatim>\<open>+HH:MM\<close> or \<^verbatim>\<open>-HH:MM\<close>, and raises \<open>ValueError\<close>
  on everything else. The strings that the sample records below hold are read by the
  library's parser with the same result.
\<close>

definition digit :: "char \<Rightarrow> nat option" where
  "digit ch =
     map_of [(CHR ''0'', 0), (CHR ''1'', 1), (CHR ''2'', 2), (CHR ''3'', 3), (CHR ''4'', 4),
             (CHR ''5'', 5), (CHR ''6'', 6), (CHR ''7'', 7), (CHR ''8'', 8), (CHR ''9'', 9)] ch"

fun number :: "nat \<Rightarrow> string \<Rightarrow> nat option" where
  "number acc [] = Some acc"
| "number acc (ch # s) =
     (case digit ch of None \<Rightarrow> None | Some d \<Rightarrow> number (10 * acc + d) s)"

definition sample_date :: "string \<Rightarrow> date option" where
  "sample_date s =
     (if length s = 10 \<and> s ! 4 = CHR ''-'' \<and> s ! 7 = CHR ''-'' then
        (case (number 0 (take 4 s), number 0 (take 2 (drop 5 s)), number 0 (drop 8 s)) of
           (Some y, Some m, Some d) \<Rightarrow>
             (let r = \<lparr>year = y, month = m, day = d\<rparr>
              in if valid_date r then Some r else None)
         | _ \<Rightarrow> None)
      else None)"

definition sample_time :: "string \<Rightarrow> (nat \<times> nat \<times> nat) option" where
  "sample_time s =
     (if length s = 8 \<and> s ! 2 = CHR '':'' \<and> s ! 5 = CHR '':'' then
        (case (number 0 (take 2 s), number 0 (take 2 (drop 3 s)), number 0 (drop 6 s)) of
           (Some h, Some m, Some sec) \<Rightarrow>
             if h < 24 \<and> m < 60 \<and> sec < 60 then Some (h, m, sec) else None
         | _ \<Rightarrow> None)
      else None)"

definition sample_offset :: "string \<Rightarrow> int option" where
  "sample_offset s =
     (if length s = 6 \<and> (s ! 0 = CHR ''+'' \<or> s ! 0 = CHR ''-'') \<and> s ! 3 = CHR '':'' then
        (case (number 0 (take 2 (drop 1 s)), number 0 (drop 4 s)) of
           (Some h, Some m) \<Rightarrow>
             if h < 24 \<and> m < 60
             then Some ((if s ! 0 = CHR ''-'' then - 1 else 1) * int (60 * h + m))
             else None
         | _ \<Rightarrow> None)
      else None)"

definition sample_fromisoformat :: fromisoformat where
  "sample_fromisoformat s =
     (case sample_date (take 10 s) of
        None \<Rightarrow> Inl ValueError
      | Some d \<Rightarrow>
          if length s = 10 then
            Inr \<lparr>dt_date = d, dt_hour = 0, dt_minute = 0, dt_second = 0, dt_utcoffset = None\<rparr>
          else
            (case sample_time (take 8 (drop 11 s)) of
               None \<Rightarrow> Inl ValueError
             | Some (h, m, sec) \<Rightarrow>
                 if length s = 19 then
                   Inr \<lparr>dt_date = d, dt_hour = h, dt_minute = m, dt_second = sec,
                        dt_utcoffset = None\<rparr>
                 else
                   (case sample_offset (drop 19 s) of
                      None \<Rightarrow> Inl ValueError
                    | Some off \<Rightarrow>
                        Inr \<lparr>dt_date = d, dt_hour = h, dt_minute = m, dt_second = sec,
                             dt_utcoffset = Some off\<rparr>)))"

section \<open>Sample data\<close>

text \<open>
  The records of the specification's scenarios, and neighbours of them, to evaluate the
  definitions on.
\<close>

definition python311 :: CycleInfo where
  "python311 =
     \<lparr>cycle = ''3.11'', release_date = Some (DStr ''2022-10-24''),
      eol = Some (PyStr ''2027-10-24''), latest = Some ''3.11.9'',
      latest_release_date = None, lts = Some (PyBool False),
      support = Some (PyStr ''2024-04-01'')\<rparr>"

definition node18 :: CycleInfo where
  "node18 =
     \<lparr>cycle = ''18'', release_date = None, eol = Some (PyBool True), latest = None,
      latest_release_date = None, lts = None, support = None\<rparr>"

definition node20 :: CycleInfo where
  "node20 =
     \<lparr>cycle = ''20'', release_date = None, eol = Some (PyStr ''2026-04-30T00:00:00Z''),
      latest = Some ''20.11.0'', latest_release_date = None, lts = Some (PyStr ''2023-10-24''),
      support = None\<rparr>"

definition node21 :: CycleInfo where
  "node21 =
     \<lparr>cycle = ''21'', release_date = None, eol = None, latest = None,
      latest_release_date = None, lts = None, support = None\<rparr>"

definition ubuntu2204 :: CycleInfo where
  "ubuntu2204 =
     \<lparr>cycle = ''22.04'', release_date = Some (DDate \<lparr>year = 2022, month = 4, day = 21\<rparr>),
      eol = Some (PyDate \<lparr>year = 2027, month = 4, day = 1\<rparr>), latest = Some ''22.04.4'',
      latest_release_date = None, lts = Some (PyBool True),
      support = Some (PyBool True)\<rparr>"

definition unknown_dates :: CycleInfo where
  "unknown_dates =
     \<lparr>cycle = ''1.0'', release_date = None, eol = Some (PyStr ''Unknown''), latest = None,
      latest_release_date = None, lts = None, support = Some (PyStr ''not-a-date'')\<rparr>"

definition new_year_2025 :: date where
  "new_year_2025 = \<lparr>year = 2025, month = 1, day = 1\<rparr>"

definition python3_alias :: CycleInfo where
  "python3_alias =
     \<lparr>cycle = ''3'', release_date = None, eol = None, latest = Some ''3.1'',
      latest_release_date = None, lts = None, support = None\<rparr>"

definition python31 :: CycleInfo where
  "python31 =
     \<lparr>cycle = ''3.1'', release_date = None, eol = Some (PyBool True), latest = Some ''3.1.5'',
      latest_release_date = None, lts = None, support = None\<rparr>"

definition raw_node18 :: raw_cycle where
  "raw_node18 = [''cycle'' \<mapsto> JStr ''18'', ''eol'' \<mapsto> JBool True]"

definition raw_node21 :: raw_cycle where
  "raw_node21 = [''cycle'' \<mapsto> JStr ''21'', ''codename'' \<mapsto> JNull]"

definition raw_no_cycle :: raw_cycle where
  "raw_no_cycle = [''eol'' \<mapsto> JBool True, ''latest'' \<mapsto> JStr ''16.20.2'']"

text \<open>
  Two catalogs whose single-cycle lookup answers 404 for every request: one lists two
  well-formed cycles for \<open>nodejs\<close>, the other lists a cycle without the \<open>cycle\<close> key
  before a well-formed one.
\<close>

definition catalog_nodejs :: catalog where
  "catalog_nodejs =
     \<lparr>cycle_json = (\<lambda>pname cyc. Inl (HTTPStatusError 404)),
      product_json = (\<lambda>pname. if pname = ''nodejs'' then Inr [raw_node18, raw_node21]
                               else Inl (HTTPStatusError 404))\<rparr>"

definition catalog_malformed :: catalog where
  "catalog_malformed =
     \<lparr>cycle_json = (\<lambda>pname cyc. Inl (HTTPStatusError 404)),
      product_json = (\<lambda>pname. Inr [raw_no_cycle, raw_node18])\<rparr>"

section \<open>Dates\<close>

lemma date_gt_iff_not_le: "date_gt a b \<longleftrightarrow> \<not> date_le a b"
  by (auto simp: date_gt_def date_le_def)

lemma date_le_refl: "date_le d d"
  by (simp add: date_le_def)

lemma date_gt_irrefl: "\<not> date_gt d d"
  by (simp add: date_gt_def)

lemma next_day_gt: "date_gt (next_day d) d"
  by (simp add: next_day_def date_gt_def)

lemma next_day_not_le: "\<not> date_le (next_day d) d"
  using next_day_gt [of d] by (simp add: date_gt_iff_not_le)

lemma next_day_valid:
  assumes "valid_date d" and "d \<noteq> \<lparr>year = 9999, month = 12, day = 31\<rparr>"
  shows "valid_date (next_day d)"
proof -
  have dim: "1 \<le> days_in_month y m" for y m
    by (simp add: days_in_month_def)
  have dec: "days_in_month y 12 = 31" for y
    by (simp add: days_in_month_def)
  show ?thesis
  proof (cases "day d < days_in_month (year d) (month d)")
    case True
    with assms(1) show ?thesis
      by (simp add: next_day_def valid_date_def)
  next
    case False
    note last = this
    show ?thesis
    proof (cases "month d < 12")
      case True
      with last assms(1) dim [of "year d" "month d + 1"] show ?thesis
        by (simp add: next_day_def valid_date_def)
    next
      case False
      with assms(1) have m: "month d = 12"
        by (simp add: valid_date_def)
      with last assms(1) have dd: "day d = 31"
        by (simp add: valid_date_def dec)
      have "year d \<noteq> 9999"
      proof
        assume "year d = 9999"
        with m dd have "d = \<lparr>year = 9999, month = 12, day = 31\<rparr>" by simp
        with assms(2) show False by simp
      qed
      with assms(1) False last show ?thesis
        by (simp add: next_day_def valid_date_def days_in_month_def)
    qed
  qed
qed

section \<open>The evaluators\<close>

lemma sample_fromisoformat_raises: "raises_only_value_or_type_error sample_fromisoformat"
  unfolding raises_only_value_or_type_error_def sample_fromisoformat_def
  by (auto split: option.splits if_splits prod.splits)

lemma sample_parse_unknown: "sample_fromisoformat (replace_Z ''Unknown'') = Inl ValueError"
  by code_simp

lemma next_day_samples:
  "next_day \<lparr>year = 2026, month = 4, day = 30\<rparr> = \<lparr>year = 2026, month = 5, day = 1\<rparr>"
  "next_day \<lparr>year = 2027, month = 4, day = 1\<rparr> = \<lparr>year = 2027, month = 4, day = 2\<rparr>"
  "next_day \<lparr>year = 2027, month = 10, day = 24\<rparr> = \<lparr>year = 2027, month = 10, day = 25\<rparr>"
  by (simp_all add: next_day_def days_in_month_def)

text \<open>
  C6. A record without \<open>eol\<close> is not end-of-life, and a boolean \<open>eol\<close> is the answer
  itself, on every day.
\<close>

theorem is_version_eol_absent_or_boolean:
  "(eol info = None \<longrightarrow> is_version_eol parse today info = Inr False) \<and>
   (eol info = Some (PyBool b) \<longrightarrow> is_version_eol parse today info = Inr b)"
  by (simp add: is_version_eol_def)

theorem is_version_eol_absent_or_boolean_witness:
  "eol node21 = None \<and>
   is_version_eol sample_fromisoformat new_year_2025 node21 = Inr False \<and>
   eol node18 = Some (PyBool True) \<and>
   is_version_eol sample_fromisoformat new_year_2025 node18 = Inr True"
proof -
  have absent: "eol node21 = None"
    by (simp add: node21_def)
  have flag: "eol node18 = Some (PyBool True)"
    by (simp add: node18_def)
  note inst1 = is_version_eol_absent_or_boolean
    [where info = node21 and parse = sample_fromisoformat and today = new_year_2025]
  note inst2 = is_version_eol_absent_or_boolean
    [where info = node18 and parse = sample_fromisoformat and today = new_year_2025
       and b = True]
  from absent flag inst1 inst2 show ?thesis
    by blast
qed

text \<open>
  C5. When \<open>eol\<close> is a date \<open>D\<close>, given as a date value or as a string that the parser
  reads (after every \<open>Z\<close> has become \<open>+00:00\<close>), the version is end-of-life exactly on
  the days strictly after \<open>D\<close>: not on \<open>D\<close> itself, and on the day after \<open>D\<close>.
\<close>

theorem is_version_eol_after_date:
  assumes "reads_as_date parse (eol info) D"
  shows "is_version_eol parse today info = Inr (date_gt today D) \<and>
         is_version_eol parse D info = Inr False \<and>
         is_version_eol parse (next_day D) info = Inr True"
proof -
  have general: "is_version_eol parse t info = Inr (date_gt t D)" for t
    using assms
    by (auto simp: reads_as_date_def is_version_eol_def
             split: option.splits status_field.splits sum.splits)
  show ?thesis
    by (simp add: general date_gt_irrefl next_day_gt)
qed

theorem is_version_eol_after_date_witness:
  "reads_as_date sample_fromisoformat (eol node20) \<lparr>year = 2026, month = 4, day = 30\<rparr> \<and>
   is_version_eol sample_fromisoformat new_year_2025 node20 = Inr False \<and>
   is_version_eol sample_fromisoformat \<lparr>year = 2026, month = 4, day = 30\<rparr> node20 = Inr False \<and>
   is_version_eol sample_fromisoformat \<lparr>year = 2026, month = 5, day = 1\<rparr> node20 = Inr True"
proof -
  let ?D = "\<lparr>year = 2026, month = 4, day = 30\<rparr>"
  have h: "reads_as_date sample_fromisoformat (eol node20) ?D"
    by code_simp
  have before: "date_gt new_year_2025 ?D = False"
    by code_simp
  note inst = is_version_eol_after_date [OF h, where today = new_year_2025]
  from inst have on_day: "is_version_eol sample_fromisoformat ?D node20 = Inr False"
    by blast
  from inst have "is_version_eol sample_fromisoformat (next_day ?D) node20 = Inr True"
    by blast
  then have day_after:
    "is_version_eol sample_fromisoformat \<lparr>year = 2026, month = 5, day = 1\<rparr> node20 = Inr True"
    by (simp only: next_day_samples)
  from inst have "is_version_eol sample_fromisoformat new_year_2025 node20 =
      Inr (date_gt new_year_2025 ?D)"
    by blast
  then have earlier: "is_version_eol sample_fromisoformat new_year_2025 node20 = Inr False"
    by (simp only: before)
  from h earlier on_day day_after show ?thesis
    by blast
qed

text \<open>
  C3. Without a \<open>support\<close> field the answer comes from \<open>eol\<close>, a boolean read the other
  way round: \<open>eol = True\<close> means unsupported on every day, and an \<open>eol\<close> date \<open>D\<close> means
  supported up to and including \<open>D\<close>, so supported on \<open>D\<close> and unsupported the day
  after.
\<close>

theorem is_version_supported_falls_back_to_eol:
  assumes "support info = None"
  shows "(eol info = Some (PyBool True) \<longrightarrow> is_version_supported parse today info = Inr False) \<and>
         (eol info = Some (PyBool b) \<longrightarrow> is_version_supported parse today info = Inr (\<not> b)) \<and>
         (reads_as_date parse (eol info) D \<longrightarrow>
            is_version_supported parse today info = Inr (date_le today D) \<and>
            is_version_supported parse D info = Inr True \<and>
            is_version_supported parse (next_day D) info = Inr False)"
proof -
  have fallback: "is_version_supported parse t info = supported_from_eol parse t info" for t
    using assms by (simp add: is_version_supported_def)
  have dated: "supported_from_eol parse t info = Inr (date_le t D)"
    if "reads_as_date parse (eol info) D" for t
    using that
    by (auto simp: reads_as_date_def supported_from_eol_def
             split: option.splits status_field.splits sum.splits)
  have flag: "supported_from_eol parse today info = Inr (\<not> c)"
    if "eol info = Some (PyBool c)" for c
    using that by (simp add: supported_from_eol_def)
  have part1: "eol info = Some (PyBool True) \<longrightarrow>
      is_version_supported parse today info = Inr False"
    using flag [of True] by (simp add: fallback)
  have part2: "eol info = Some (PyBool b) \<longrightarrow>
      is_version_supported parse today info = Inr (\<not> b)"
    using flag [of b] by (simp add: fallback)
  have part3: "reads_as_date parse (eol info) D \<longrightarrow>
      is_version_supported parse today info = Inr (date_le today D) \<and>
      is_version_supported parse D info = Inr True \<and>
      is_version_supported parse (next_day D) info = Inr False"
    by (simp add: fallback dated date_le_refl next_day_not_le)
  from part1 part2 part3 show ?thesis
    by blast
qed

theorem is_version_supported_falls_back_to_eol_witness:
  "support node18 = None \<and> eol node18 = Some (PyBool True) \<and>
   is_version_supported sample_fromisoformat new_year_2025 node18 = Inr False \<and>
   support node20 = None \<and>
   reads_as_date sample_fromisoformat (eol node20) \<lparr>year = 2026, month = 4, day = 30\<rparr> \<and>
   is_version_supported sample_fromisoformat \<lparr>year = 2026, month = 4, day = 30\<rparr> node20 = Inr True \<and>
   is_version_supported sample_fromisoformat \<lparr>year = 2026, month = 5, day = 1\<rparr> node20 = Inr False"
proof -
  let ?D = "\<lparr>year = 2026, month = 4, day = 30\<rparr>"
  have s18: "support node18 = None" and e18: "eol node18 = Some (PyBool True)"
    by (simp_all add: node18_def)
  have s20: "support node20 = None"
    by (simp add: node20_def)
  have d20: "reads_as_date sample_fromisoformat (eol node20) ?D"
    by code_simp
  note inst18 = is_version_supported_falls_back_to_eol
    [OF s18, where parse = sample_fromisoformat and today = new_year_2025]
  note inst20 = is_version_supported_falls_back_to_eol
    [OF s20, where parse = sample_fromisoformat and D = ?D]
  from inst18 e18
  have flagged: "is_version_supported sample_fromisoformat new_year_2025 node18 = Inr False"
    by blast
  from inst20 d20 have on_day: "is_version_supported sample_fromisoformat ?D node20 = Inr True"
    by blast
  from inst20 d20
  have "is_version_supported sample_fromisoformat (next_day ?D) node20 = Inr False"
    by blast
  then have day_after:
    "is_version_supported sample_fromisoformat \<lparr>year = 2026, month = 5, day = 1\<rparr> node20
       = Inr False"
    by (simp only: next_day_samples)
  from s18 e18 flagged s20 d20 on_day day_after show ?thesis
    by blast
qed

text \<open>
  C4. A usable \<open>support\<close> field decides alone, whatever \<open>eol\<close> holds: a boolean is the
  answer, and a date \<open>D\<close> (a date value or a string the parser reads) means supported
  exactly on the days up to and including \<open>D\<close>.
\<close>

theorem is_version_supported_by_support:
  "(support info = Some (PyBool b) \<longrightarrow>
      is_version_supported parse today (info\<lparr>eol := e\<rparr>) = Inr b) \<and>
   (reads_as_date parse (support info) D \<longrightarrow>
      is_version_supported parse today (info\<lparr>eol := e\<rparr>) = Inr (date_le today D))"
  by (auto simp: reads_as_date_def is_version_supported_def
           split: option.splits status_field.splits sum.splits)

theorem is_version_supported_by_support_witness:
  "support ubuntu2204 = Some (PyBool True) \<and>
   is_version_supported sample_fromisoformat new_year_2025 (ubuntu2204\<lparr>eol := Some (PyBool True)\<rparr>)
     = Inr True \<and>
   reads_as_date sample_fromisoformat (support python311) \<lparr>year = 2024, month = 4, day = 1\<rparr> \<and>
   is_version_supported sample_fromisoformat new_year_2025 python311 = Inr False \<and>
   is_version_eol sample_fromisoformat new_year_2025 python311 = Inr False"
proof -
  let ?D = "\<lparr>year = 2024, month = 4, day = 1\<rparr>"
  have flag: "support ubuntu2204 = Some (PyBool True)"
    by (simp add: ubuntu2204_def)
  have dated: "reads_as_date sample_fromisoformat (support python311) ?D"
    by code_simp
  have same: "python311\<lparr>eol := Some (PyStr ''2027-10-24'')\<rparr> = python311"
    by (simp add: python311_def)
  have passed: "date_le new_year_2025 ?D = False"
    by code_simp
  have not_eol: "is_version_eol sample_fromisoformat new_year_2025 python311 = Inr False"
    by code_simp
  note inst1 = is_version_supported_by_support
    [where info = ubuntu2204 and b = True and parse = sample_fromisoformat
       and today = new_year_2025 and e = "Some (PyBool True)"]
  note inst2 = is_version_supported_by_support
    [where info = python311 and parse = sample_fromisoformat and today = new_year_2025
       and D = ?D and e = "Some (PyStr ''2027-10-24'')"]
  from inst1 flag
  have by_flag: "is_version_supported sample_fromisoformat new_year_2025
      (ubuntu2204\<lparr>eol := Some (PyBool True)\<rparr>) = Inr True"
    by blast
  from inst2 dated
  have "is_version_supported sample_fromisoformat new_year_2025
      (python311\<lparr>eol := Some (PyStr ''2027-10-24'')\<rparr>) = Inr (date_le new_year_2025 ?D)"
    by blast
  then have by_date: "is_version_supported sample_fromisoformat new_year_2025 python311 = Inr False"
    by (simp only: same passed)
  from flag by_flag dated by_date not_eol show ?thesis
    by blast
qed

lemma supported_from_eol_returns:
  assumes "raises_only_value_or_type_error parse"
  shows "\<exists>b. supported_from_eol parse today info = Inr b"
proof -
  have caught: "e = ValueError \<or> e = TypeError" if "parse x = Inl e" for x e
    using assms that by (auto simp: raises_only_value_or_type_error_def)
  show ?thesis
    by (auto simp: supported_from_eol_def dest: caught
             split: option.splits status_field.splits sum.splits)
qed

lemma is_version_supported_returns:
  assumes "raises_only_value_or_type_error parse"
  shows "\<exists>b. is_version_supported parse today info = Inr b"
proof -
  have caught: "e = ValueError \<or> e = TypeError" if "parse x = Inl e" for x e
    using assms that by (auto simp: raises_only_value_or_type_error_def)
  show ?thesis
    using supported_from_eol_returns [OF assms, of today info]
    by (auto simp: is_version_supported_def dest: caught
             split: option.splits status_field.splits sum.splits)
qed

lemma is_version_eol_returns:
  assumes "raises_only_value_or_type_error parse"
  shows "\<exists>b. is_version_eol parse today info = Inr b"
proof -
  have caught: "e = ValueError \<or> e = TypeError" if "parse x = Inl e" for x e
    using assms that by (auto simp: raises_only_value_or_type_error_def)
  show ?thesis
    by (auto simp: is_version_eol_def dest: caught
             split: option.splits status_field.splits sum.splits)
qed

text \<open>
  C7. With a parser that raises nothing but \<open>ValueError\<close> and \<open>TypeError\<close>, both
  evaluators return a boolean on every record and every day; an \<open>eol\<close> string the parser
  rejects counts as an absent \<open>eol\<close>, not end-of-life; and when neither \<open>support\<close> nor
  \<open>eol\<close> holds a usable value, the version is unsupported.
\<close>

theorem evaluators_fail_closed:
  assumes "raises_only_value_or_type_error parse"
  shows "(\<exists>supported e. is_version_supported parse today info = Inr supported \<and>
                        is_version_eol parse today info = Inr e) \<and>
         (eol info = Some (PyStr s) \<and> parse (replace_Z s) = Inl err \<longrightarrow>
            is_version_eol parse today info = Inr False) \<and>
         (unusable parse (support info) \<and> unusable parse (eol info) \<longrightarrow>
            is_version_supported parse today info = Inr False)"
proof -
  have caught: "e = ValueError \<or> e = TypeError" if "parse x = Inl e" for x e
    using assms that by (auto simp: raises_only_value_or_type_error_def)
  have supported: "\<exists>b. is_version_supported parse today info = Inr b"
    by (rule is_version_supported_returns [OF assms])
  have ended: "\<exists>b. is_version_eol parse today info = Inr b"
    by (rule is_version_eol_returns [OF assms])
  have rejected: "is_version_eol parse today info = Inr False"
    if "eol info = Some (PyStr s)" and "parse (replace_Z s) = Inl err"
    using that caught [of "replace_Z s" err] by (auto simp: is_version_eol_def)
  have eol_unusable: "supported_from_eol parse today info = Inr False"
    if "unusable parse (eol info)"
    using that
    by (auto simp: unusable_def supported_from_eol_def dest: caught
             split: option.splits status_field.splits sum.splits)
  have closed: "is_version_supported parse today info = Inr False"
    if "unusable parse (support info)" and "unusable parse (eol info)"
    using that(1) eol_unusable [OF that(2)]
    by (auto simp: unusable_def is_version_supported_def dest: caught
             split: option.splits status_field.splits sum.splits)
  from supported ended rejected closed show ?thesis
    by blast
qed

theorem evaluators_fail_closed_witness:
  "raises_only_value_or_type_error sample_fromisoformat \<and>
   eol unknown_dates = Some (PyStr ''Unknown'') \<and>
   sample_fromisoformat (replace_Z ''Unknown'') = Inl ValueError \<and>
   unusable sample_fromisoformat (support unknown_dates) \<and>
   unusable sample_fromisoformat (eol unknown_dates) \<and>
   is_version_eol sample_fromisoformat new_year_2025 unknown_dates = Inr False \<and>
   is_version_supported sample_fromisoformat new_year_2025 unknown_dates = Inr False"
proof -
  have e: "eol unknown_dates = Some (PyStr ''Unknown'')"
    by (simp add: unknown_dates_def)
  have us: "unusable sample_fromisoformat (support unknown_dates)"
    by code_simp
  have ue: "unusable sample_fromisoformat (eol unknown_dates)"
    by code_simp
  note inst = evaluators_fail_closed
    [OF sample_fromisoformat_raises, where info = unknown_dates and today = new_year_2025
       and s = "''Unknown''" and err = ValueError]
  from sample_fromisoformat_raises e sample_parse_unknown us ue inst show ?thesis
    by blast
qed

text \<open>
  C9. The evaluators read \<open>eol\<close> and \<open>support\<close> only: two records that agree on these
  two fields get the same pair of answers on every day, whatever their \<open>cycle\<close>,
  \<open>lts\<close>, \<open>latest\<close>, \<open>release_date\<close> and \<open>latest_release_date\<close> are.
\<close>

theorem evaluators_read_eol_and_support_only:
  assumes "eol a = eol b" and "support a = support b"
  shows "is_version_supported parse today a = is_version_supported parse today b \<and>
         is_version_eol parse today a = is_version_eol parse today b"
proof -
  have fallback: "supported_from_eol parse today a = supported_from_eol parse today b"
    using assms(1) by (simp add: supported_from_eol_def)
  have supported: "is_version_supported parse today a = is_version_supported parse today b"
    using assms(2) fallback
    by (simp add: is_version_supported_def split: option.splits status_field.splits sum.splits)
  have ended: "is_version_eol parse today a = is_version_eol parse today b"
    using assms(1) by (simp add: is_version_eol_def)
  from supported ended show ?thesis
    by simp
qed

theorem evaluators_read_eol_and_support_only_witness:
  "eol python311 = eol (python311\<lparr>lts := Some (PyBool True), latest := None,
        release_date := None, latest_release_date := Some (DStr ''2024-12-03'')\<rparr>) \<and>
   support python311 = support (python311\<lparr>lts := Some (PyBool True), latest := None,
        release_date := None, latest_release_date := Some (DStr ''2024-12-03'')\<rparr>) \<and>
   is_version_supported sample_fromisoformat new_year_2025 python311 =
     is_version_supported sample_fromisoformat new_year_2025
       (python311\<lparr>lts := Some (PyBool True), latest := None,
          release_date := None, latest_release_date := Some (DStr ''2024-12-03'')\<rparr>) \<and>
   is_version_eol sample_fromisoformat new_year_2025 python311 =
     is_version_eol sample_fromisoformat new_year_2025
       (python311\<lparr>lts := Some (PyBool True), latest := None,
          release_date := None, latest_release_date := Some (DStr ''2024-12-03'')\<rparr>)"
proof -
  let ?other = "python311\<lparr>lts := Some (PyBool True), latest := None,
        release_date := None, latest_release_date := Some (DStr ''2024-12-03'')\<rparr>"
  have e: "eol python311 = eol ?other" and s: "support python311 = support ?other"
    by simp_all
  from e s evaluators_read_eol_and_support_only
    [OF e s, where parse = sample_fromisoformat and today = new_year_2025]
  show ?thesis
    by blast
qed

section \<open>The client\<close>

lemma found_status_returns:
  assumes "raises_only_value_or_type_error parse"
  shows "\<exists>supported e. found_status parse today pname ver info =
           Inr \<lparr>product = pname, version = ver, found = True, cycle_info = Some info,
                is_supported = supported, is_eol = e\<rparr>"
proof -
  from is_version_supported_returns [OF assms, of today info]
  obtain supported where s: "is_version_supported parse today info = Inr supported"
    by blast
  from is_version_eol_returns [OF assms, of today info]
  obtain e where e: "is_version_eol parse today info = Inr e"
    by blast
  show ?thesis
    by (simp add: found_status_def s e)
qed

lemma found_status_found:
  assumes "found_status parse today pname ver info = Inr st"
  shows "found st \<and> cycle_info st = Some info"
  using assms by (auto simp: found_status_def split: sum.splits)

lemma search_versions_no_match:
  assumes "\<forall>c\<in>set rs. \<not> cycle_matches ver c"
  shows "search_versions parse today pname ver rs =
           Inr \<lparr>product = pname, version = ver, found = False, cycle_info = None,
                is_supported = False, is_eol = True\<rparr>"
  using assms by (induction rs) simp_all

lemma search_versions_first_match:
  assumes "\<forall>x\<in>set pre. \<not> cycle_matches ver x" and "cycle_matches ver c"
  shows "search_versions parse today pname ver (pre @ c # post) =
           found_status parse today pname ver c"
  using assms by (induction pre) simp_all

lemma cycle_matches_empty: "cycle_matches [] c"
  by (simp add: cycle_matches_def)

lemma cycle_matches_exact: "cycle c = ver \<Longrightarrow> cycle_matches ver c"
  by (simp add: cycle_matches_def)

lemma get_cycle_details_status_error:
  assumes "cycle_json cat pname ver = Inl e"
  shows "get_cycle_details cat pname ver = Inl e"
  using assms by (simp add: get_cycle_details_def)

lemma check_support_status_after_404:
  assumes "cycle_json cat pname ver = Inl (HTTPStatusError 404)"
  shows "check_support_status parse today cat pname ver =
           (case get_product_versions cat pname of
              Inl e \<Rightarrow> Inl e
            | Inr product_info \<Rightarrow>
                search_versions parse today pname ver (versions product_info))"
  by (simp add: check_support_status_def get_cycle_details_status_error [OF assms])

lemma CycleInfo_init_error:
  assumes "CycleInfo_init m = Inl e"
  shows "e = ValidationError"
proof (cases "m ''cycle''")
  case None
  with assms show ?thesis
    by (simp add: CycleInfo_init_def)
next
  case (Some v)
  with assms show ?thesis
    by (cases v) (auto simp: CycleInfo_init_def split: sum.splits)
qed

lemma CycleInfo_init_missing_cycle:
  assumes "m ''cycle'' = None"
  shows "CycleInfo_init m = Inl ValidationError"
  using assms by (simp add: CycleInfo_init_def)

lemma convert_cycles_fails:
  assumes "m \<in> set raws" and "CycleInfo_init m = Inl e"
  shows "convert_cycles cycles raws = Inl ValidationError"
  using assms
proof (induction raws arbitrary: cycles)
  case Nil
  then show ?case by simp
next
  case (Cons r raws)
  show ?case
  proof (cases "CycleInfo_init r")
    case (Inl e')
    with CycleInfo_init_error [OF Inl] show ?thesis
      by simp
  next
    case (Inr info)
    with Cons.prems have "m \<in> set raws"
      by auto
    with Cons.IH Cons.prems(2) Inr show ?thesis
      by simp
  qed
qed

lemma convert_cycles_all:
  assumes "list_all2 (\<lambda>m c. CycleInfo_init m = Inr c) raws cs"
  shows "convert_cycles cycles raws = Inr (cycles @ cs)"
  using assms by (induction raws cs arbitrary: cycles rule: list_all2_induct) simp_all

lemma sample_construction:
  "CycleInfo_init raw_node18 = Inr node18"
  "CycleInfo_init raw_node21 = Inr node21"
  "CycleInfo_init raw_no_cycle = Inl ValidationError"
  by (simp_all add: CycleInfo_init_def raw_node18_def raw_node21_def raw_no_cycle_def
        node18_def node21_def validate_date_field_def validate_status_field_def
        validate_optional_str_def by_alias_def)

lemma get_product_versions_nodejs:
  "get_product_versions catalog_nodejs ''nodejs'' =
     Inr \<lparr>pi_product = ''nodejs'', versions = [node18, node21], count = 2\<rparr>"
  by (simp add: get_product_versions_def catalog_nodejs_def sample_construction)

text \<open>
  C2. When no record of the list satisfies the loop's condition, and so whenever the
  list is empty, the search returns the status \<open>found = False\<close>, \<open>is_supported = False\<close>,
  \<open>is_eol = True\<close> as a value; \<^verbatim>\<open>check_support_status\<close> returns the same status when the
  single-cycle lookup has answered 404 and the product's list holds no match.
\<close>

theorem not_found_is_worst_case:
  "((\<forall>c\<in>set rs. \<not> cycle_matches ver c) \<longrightarrow>
      search_versions parse today pname ver rs =
        Inr \<lparr>product = pname, version = ver, found = False, cycle_info = None,
             is_supported = False, is_eol = True\<rparr>) \<and>
   search_versions parse today pname ver [] =
     Inr \<lparr>product = pname, version = ver, found = False, cycle_info = None,
          is_supported = False, is_eol = True\<rparr> \<and>
   (cycle_json cat pname ver = Inl (HTTPStatusError 404) \<and>
    get_product_versions cat pname = Inr product_info \<and>
    (\<forall>c\<in>set (versions product_info). \<not> cycle_matches ver c) \<longrightarrow>
      check_support_status parse today cat pname ver =
        Inr \<lparr>product = pname, version = ver, found = False, cycle_info = None,
             is_supported = False, is_eol = True\<rparr>)"
proof -
  have through: "check_support_status parse today cat pname ver =
      search_versions parse today pname ver (versions product_info)"
    if "cycle_json cat pname ver = Inl (HTTPStatusError 404)"
      and "get_product_versions cat pname = Inr product_info"
    using that by (simp add: check_support_status_after_404)
  show ?thesis
    by (auto simp: search_versions_no_match through)
qed

theorem not_found_is_worst_case_witness:
  "\<not> cycle_matches ''not-a-real-version'' node18 \<and>
   \<not> cycle_matches ''not-a-real-version'' node21 \<and>
   cycle_json catalog_nodejs ''nodejs'' ''not-a-real-version'' = Inl (HTTPStatusError 404) \<and>
   get_product_versions catalog_nodejs ''nodejs'' =
     Inr \<lparr>pi_product = ''nodejs'', versions = [node18, node21], count = 2\<rparr> \<and>
   check_support_status sample_fromisoformat new_year_2025 catalog_nodejs ''nodejs''
       ''not-a-real-version'' =
     Inr \<lparr>product = ''nodejs'', version = ''not-a-real-version'', found = False,
          cycle_info = None, is_supported = False, is_eol = True\<rparr>"
proof -
  let ?info = "\<lparr>pi_product = ''nodejs'', versions = [node18, node21], count = 2\<rparr>"
  have none: "\<forall>c\<in>set [node18, node21]. \<not> cycle_matches ''not-a-real-version'' c"
    by (simp add: cycle_matches_def node18_def node21_def)
  then have none': "\<forall>c\<in>set (versions ?info). \<not> cycle_matches ''not-a-real-version'' c"
    by simp
  have gone: "cycle_json catalog_nodejs ''nodejs'' ''not-a-real-version'' =
      Inl (HTTPStatusError 404)"
    by (simp add: catalog_nodejs_def)
  note inst = not_found_is_worst_case
    [where cat = catalog_nodejs and pname = "''nodejs''" and ver = "''not-a-real-version''"
       and product_info = ?info and parse = sample_fromisoformat and today = new_year_2025]
  from none have each: "\<not> cycle_matches ''not-a-real-version'' node18"
      "\<not> cycle_matches ''not-a-real-version'' node21"
    by simp_all
  from inst gone get_product_versions_nodejs none' each show ?thesis
    by blast
qed

text \<open>
  C10. The empty string is a prefix of every cycle, so a search for the version \<open>''''\<close>
  in a non-empty list stops at its first record: the result is the status built from
  that record, which is a \<open>found = True\<close> status carrying that record whenever the parser
  raises nothing but \<open>ValueError\<close> and \<open>TypeError\<close>. A \<open>found = False\<close> status for the
  empty version comes from the empty list only.
\<close>

theorem empty_version_matches_first_record:
  "search_versions parse today pname [] (c # cs) = found_status parse today pname [] c \<and>
   (raises_only_value_or_type_error parse \<longrightarrow>
      (\<exists>st. search_versions parse today pname [] (c # cs) = Inr st \<and>
            found st \<and> cycle_info st = Some c)) \<and>
   (search_versions parse today pname [] rs = Inr st' \<and> \<not> found st' \<longrightarrow> rs = [])"
proof -
  have first: "search_versions parse today pname [] (c # cs) = found_status parse today pname [] c"
    by (simp add: cycle_matches_empty)
  have succeeds: "\<exists>st. search_versions parse today pname [] (c # cs) = Inr st \<and>
      found st \<and> cycle_info st = Some c"
    if "raises_only_value_or_type_error parse"
  proof -
    from found_status_returns [OF that, of today pname "[]" c]
    obtain st where st: "found_status parse today pname [] c = Inr st"
      by blast
    with found_status_found [OF st] first show ?thesis
      by simp
  qed
  have only_empty: "rs = []"
    if r: "search_versions parse today pname [] rs = Inr st'" and nf: "\<not> found st'"
  proof (cases rs)
    case Nil
    then show ?thesis .
  next
    case (Cons x xs)
    with r have "found_status parse today pname [] x = Inr st'"
      by (simp add: cycle_matches_empty)
    from found_status_found [OF this] nf show ?thesis
      by simp
  qed
  from first succeeds only_empty show ?thesis
    by blast
qed

theorem empty_version_matches_first_record_witness:
  "raises_only_value_or_type_error sample_fromisoformat \<and>
   search_versions sample_fromisoformat new_year_2025 ''nodejs'' [] [node18, node21] =
     Inr \<lparr>product = ''nodejs'', version = [], found = True, cycle_info = Some node18,
          is_supported = False, is_eol = True\<rparr>"
proof -
  have computed: "found_status sample_fromisoformat new_year_2025 ''nodejs'' [] node18 =
      Inr \<lparr>product = ''nodejs'', version = [], found = True, cycle_info = Some node18,
           is_supported = False, is_eol = True\<rparr>"
    by (simp add: found_status_def is_version_supported_def supported_from_eol_def
          is_version_eol_def node18_def)
  note inst = empty_version_matches_first_record
    [where parse = sample_fromisoformat and today = new_year_2025 and pname = "''nodejs''"
       and c = node18 and cs = "[node21]"]
  from inst have "search_versions sample_fromisoformat new_year_2025 ''nodejs'' [] [node18, node21]
      = found_status sample_fromisoformat new_year_2025 ''nodejs'' [] node18"
    by blast
  with computed sample_fromisoformat_raises show ?thesis
    by simp
qed

text \<open>
  C1, as the code has it. The loop tests the three rules together on each record, so
  there is no precedence between the rules across records: the search returns the status
  of the first record of the list that satisfies any of the three rules (cycle equal to
  the requested version, \<open>latest\<close> equal to it, or cycle starting with it), and that
  status is a \<open>found = True\<close> status carrying that record whenever the parser raises
  nothing but \<open>ValueError\<close> and \<open>TypeError\<close>. When some record satisfies a rule, and so
  when some record's cycle equals the requested version, there is such a first record;
  it is the record with the equal cycle when no record before it satisfies any rule.
\<close>

theorem first_matching_record_is_returned:
  "(rs = pre @ m # post \<and> (\<forall>x\<in>set pre. \<not> cycle_matches ver x) \<and> cycle_matches ver m \<longrightarrow>
      search_versions parse today pname ver rs = found_status parse today pname ver m \<and>
      (raises_only_value_or_type_error parse \<longrightarrow>
         (\<exists>supported e. search_versions parse today pname ver rs =
            Inr \<lparr>product = pname, version = ver, found = True, cycle_info = Some m,
                 is_supported = supported, is_eol = e\<rparr>))) \<and>
   ((\<exists>x\<in>set rs. cycle_matches ver x) \<longrightarrow>
      (\<exists>pre m post. rs = pre @ m # post \<and> (\<forall>x\<in>set pre. \<not> cycle_matches ver x) \<and>
         cycle_matches ver m \<and>
         search_versions parse today pname ver rs = found_status parse today pname ver m)) \<and>
   (c \<in> set rs \<and> cycle c = ver \<longrightarrow>
      (\<exists>pre m post. rs = pre @ m # post \<and> (\<forall>x\<in>set pre. \<not> cycle_matches ver x) \<and>
         cycle_matches ver m \<and>
         search_versions parse today pname ver rs = found_status parse today pname ver m)) \<and>
   (rs = pre' @ c # post' \<and> cycle c = ver \<and> (\<forall>x\<in>set pre'. \<not> cycle_matches ver x) \<longrightarrow>
      search_versions parse today pname ver rs = found_status parse today pname ver c)"
proof -
  have first: "search_versions parse today pname ver rs = found_status parse today pname ver m"
    if "rs = pre @ m # post" and "\<forall>x\<in>set pre. \<not> cycle_matches ver x"
      and "cycle_matches ver m"
    using that search_versions_first_match [of pre ver m parse today pname post]
    by simp
  have succeeds: "\<exists>supported e. search_versions parse today pname ver rs =
      Inr \<lparr>product = pname, version = ver, found = True, cycle_info = Some m,
           is_supported = supported, is_eol = e\<rparr>"
    if "rs = pre @ m # post" and "\<forall>x\<in>set pre. \<not> cycle_matches ver x"
      and "cycle_matches ver m" and "raises_only_value_or_type_error parse"
    using first [OF that(1,2,3)] found_status_returns [OF that(4), of today pname ver m]
    by simp
  have any_rule: "\<exists>pre m post. rs = pre @ m # post \<and> (\<forall>x\<in>set pre. \<not> cycle_matches ver x) \<and>
      cycle_matches ver m \<and>
      search_versions parse today pname ver rs = found_status parse today pname ver m"
    if "\<exists>x\<in>set rs. cycle_matches ver x"
  proof -
    from split_list_first_prop [OF that]
    obtain pre m post where rs: "rs = pre @ m # post" and m: "cycle_matches ver m"
      and pre: "\<forall>x\<in>set pre. \<not> cycle_matches ver x"
      by blast
    from search_versions_first_match [OF pre m, of parse today pname post] rs m pre
    show ?thesis
      by blast
  qed
  have general: "\<exists>pre m post. rs = pre @ m # post \<and> (\<forall>x\<in>set pre. \<not> cycle_matches ver x) \<and>
      cycle_matches ver m \<and>
      search_versions parse today pname ver rs = found_status parse today pname ver m"
    if "c \<in> set rs" and "cycle c = ver"
  proof -
    from that have "\<exists>x\<in>set rs. cycle_matches ver x"
      using cycle_matches_exact by blast
    then show ?thesis
      by (rule any_rule)
  qed
  have exact: "search_versions parse today pname ver rs = found_status parse today pname ver c"
    if "rs = pre' @ c # post'" and "cycle c = ver" and "\<forall>x\<in>set pre'. \<not> cycle_matches ver x"
    using that search_versions_first_match [of pre' ver c parse today pname post']
      cycle_matches_exact [of c ver]
    by simp
  have part1: "rs = pre @ m # post \<and> (\<forall>x\<in>set pre. \<not> cycle_matches ver x) \<and>
      cycle_matches ver m \<longrightarrow>
      search_versions parse today pname ver rs = found_status parse today pname ver m \<and>
      (raises_only_value_or_type_error parse \<longrightarrow>
         (\<exists>supported e. search_versions parse today pname ver rs =
            Inr \<lparr>product = pname, version = ver, found = True, cycle_info = Some m,
                 is_supported = supported, is_eol = e\<rparr>))"
    using first succeeds by blast
  have part2: "(\<exists>x\<in>set rs. cycle_matches ver x) \<longrightarrow>
      (\<exists>pre m post. rs = pre @ m # post \<and> (\<forall>x\<in>set pre. \<not> cycle_matches ver x) \<and>
         cycle_matches ver m \<and>
         search_versions parse today pname ver rs = found_status parse today pname ver m)"
    using any_rule by blast
  have part3: "c \<in> set rs \<and> cycle c = ver \<longrightarrow>
      (\<exists>pre m post. rs = pre @ m # post \<and> (\<forall>x\<in>set pre. \<not> cycle_matches ver x) \<and>
         cycle_matches ver m \<and>
         search_versions parse today pname ver rs = found_status parse today pname ver m)"
    using general by blast
  have part4: "rs = pre' @ c # post' \<and> cycle c = ver \<and>
      (\<forall>x\<in>set pre'. \<not> cycle_matches ver x) \<longrightarrow>
      search_versions parse today pname ver rs = found_status parse today pname ver c"
    using exact by blast
  from part1 part2 part3 part4 show ?thesis
    by (intro conjI)
qed

theorem first_matching_record_is_returned_witness:
  "[node18, python31, python311] = [node18] @ python31 # [python311] \<and>
   cycle python31 = ''3.1'' \<and>
   \<not> cycle_matches ''3.1'' node18 \<and>
   search_versions sample_fromisoformat new_year_2025 ''python'' ''3.1''
       [node18, python31, python311] =
     found_status sample_fromisoformat new_year_2025 ''python'' ''3.1'' python31 \<and>
   found_status sample_fromisoformat new_year_2025 ''python'' ''3.1'' python31 =
     Inr \<lparr>product = ''python'', version = ''3.1'', found = True, cycle_info = Some python31,
          is_supported = False, is_eol = True\<rparr> \<and>
   [node18, node20, node21] = [node18] @ node20 # [node21] \<and>
   \<not> cycle_matches ''20.11.0'' node18 \<and>
   cycle node20 \<noteq> ''20.11.0'' \<and> \<not> prefix ''20.11.0'' (cycle node20) \<and>
   latest node20 = Some ''20.11.0'' \<and>
   raises_only_value_or_type_error sample_fromisoformat \<and>
   search_versions sample_fromisoformat new_year_2025 ''nodejs'' ''20.11.0''
       [node18, node20, node21] =
     Inr \<lparr>product = ''nodejs'', version = ''20.11.0'', found = True, cycle_info = Some node20,
          is_supported = True, is_eol = False\<rparr> \<and>
   [python311] = [] @ python311 # [] \<and>
   cycle python311 \<noteq> ''3.1'' \<and> latest python311 \<noteq> Some ''3.1'' \<and>
   prefix ''3.1'' (cycle python311) \<and>
   search_versions sample_fromisoformat new_year_2025 ''python'' ''3.1'' [python311] =
     Inr \<lparr>product = ''python'', version = ''3.1'', found = True, cycle_info = Some python311,
          is_supported = False, is_eol = False\<rparr>"
proof -
  have shape: "[node18, python31, python311] = [node18] @ python31 # [python311]"
    by simp
  have exact: "cycle python31 = ''3.1''"
    by (simp add: python31_def)
  have before: "\<forall>x\<in>set [node18]. \<not> cycle_matches ''3.1'' x"
    by (simp add: cycle_matches_def node18_def)
  then have before1: "\<not> cycle_matches ''3.1'' node18"
    by simp
  note inst = first_matching_record_is_returned
    [where rs = "[node18, python31, python311]" and pre' = "[node18]" and c = python31
       and post' = "[python311]" and ver = "''3.1''" and parse = sample_fromisoformat
       and today = new_year_2025 and pname = "''python''"]
  from inst shape exact before
  have by_cycle: "search_versions sample_fromisoformat new_year_2025 ''python'' ''3.1''
       [node18, python31, python311] =
     found_status sample_fromisoformat new_year_2025 ''python'' ''3.1'' python31"
    by blast
  have status31: "found_status sample_fromisoformat new_year_2025 ''python'' ''3.1'' python31 =
     Inr \<lparr>product = ''python'', version = ''3.1'', found = True, cycle_info = Some python31,
          is_supported = False, is_eol = True\<rparr>"
    by (simp add: found_status_def is_version_supported_def supported_from_eol_def
          is_version_eol_def python31_def)

  have shape20: "[node18, node20, node21] = [node18] @ node20 # [node21]"
    by simp
  have before20: "\<forall>x\<in>set [node18]. \<not> cycle_matches ''20.11.0'' x"
    by (simp add: cycle_matches_def node18_def)
  then have before20': "\<not> cycle_matches ''20.11.0'' node18"
    by simp
  have latest20: "latest node20 = Some ''20.11.0''"
    and not_cycle: "cycle node20 \<noteq> ''20.11.0''"
    and not_prefix: "\<not> prefix ''20.11.0'' (cycle node20)"
    by (simp_all add: node20_def)
  from latest20 have match20: "cycle_matches ''20.11.0'' node20"
    by (simp add: cycle_matches_def)
  note inst20 = first_matching_record_is_returned
    [where rs = "[node18, node20, node21]" and pre = "[node18]" and m = node20
       and post = "[node21]" and ver = "''20.11.0''" and parse = sample_fromisoformat
       and today = new_year_2025 and pname = "''nodejs''"]
  from inst20 shape20 before20 match20
  have by_latest: "search_versions sample_fromisoformat new_year_2025 ''nodejs'' ''20.11.0''
       [node18, node20, node21] =
     found_status sample_fromisoformat new_year_2025 ''nodejs'' ''20.11.0'' node20"
    by blast
  have status20: "found_status sample_fromisoformat new_year_2025 ''nodejs'' ''20.11.0'' node20 =
     Inr \<lparr>product = ''nodejs'', version = ''20.11.0'', found = True, cycle_info = Some node20,
          is_supported = True, is_eol = False\<rparr>"
    by code_simp
  from by_latest status20
  have found20: "search_versions sample_fromisoformat new_year_2025 ''nodejs'' ''20.11.0''
       [node18, node20, node21] =
     Inr \<lparr>product = ''nodejs'', version = ''20.11.0'', found = True, cycle_info = Some node20,
          is_supported = True, is_eol = False\<rparr>"
    by simp

  have shape311: "[python311] = [] @ python311 # []"
    by simp
  have before311: "\<forall>x\<in>set ([] :: CycleInfo list). \<not> cycle_matches ''3.1'' x"
    by simp
  have not_cycle311: "cycle python311 \<noteq> ''3.1''"
    and not_latest311: "latest python311 \<noteq> Some ''3.1''"
    and prefix311: "prefix ''3.1'' (cycle python311)"
    by (simp_all add: python311_def)
  from prefix311 have match311: "cycle_matches ''3.1'' python311"
    by (simp add: cycle_matches_def)
  note inst311 = first_matching_record_is_returned
    [where rs = "[python311]" and pre = "[]" and m = python311
       and post = "[]" and ver = "''3.1''" and parse = sample_fromisoformat
       and today = new_year_2025 and pname = "''python''"]
  from inst311 shape311 before311 match311
  have by_prefix: "search_versions sample_fromisoformat new_year_2025 ''python'' ''3.1''
       [python311] =
     found_status sample_fromisoformat new_year_2025 ''python'' ''3.1'' python311"
    by blast
  have status311: "found_status sample_fromisoformat new_year_2025 ''python'' ''3.1'' python311 =
     Inr \<lparr>product = ''python'', version = ''3.1'', found = True, cycle_info = Some python311,
          is_supported = False, is_eol = False\<rparr>"
    by code_simp
  from by_prefix status311
  have found311: "search_versions sample_fromisoformat new_year_2025 ''python'' ''3.1''
       [python311] =
     Inr \<lparr>product = ''python'', version = ''3.1'', found = True, cycle_info = Some python311,
          is_supported = False, is_eol = False\<rparr>"
    by simp

  from shape exact before1 by_cycle status31 shape20 before20' not_cycle not_prefix latest20
    sample_fromisoformat_raises found20 shape311 not_cycle311 not_latest311 prefix311 found311
  show ?thesis
    by (intro conjI)
qed

text \<open>
  C1, as the claim states it, fails: with a record that matches \<open>3.1\<close> by its \<open>latest\<close>
  field only, or by the prefix rule only, in front of the record whose cycle is \<open>3.1\<close>,
  the search returns the record in front.
\<close>

theorem exact_cycle_precedence_counterexample:
  "cycle python31 = ''3.1'' \<and>
   cycle python3_alias \<noteq> ''3.1'' \<and> \<not> prefix ''3.1'' (cycle python3_alias) \<and>
   search_versions sample_fromisoformat new_year_2025 ''python'' ''3.1''
       [python3_alias, python31] =
     Inr \<lparr>product = ''python'', version = ''3.1'', found = True,
          cycle_info = Some python3_alias, is_supported = False, is_eol = False\<rparr> \<and>
   python3_alias \<noteq> python31 \<and>
   cycle python311 \<noteq> ''3.1'' \<and> latest python311 \<noteq> Some ''3.1'' \<and>
   search_versions sample_fromisoformat new_year_2025 ''python'' ''3.1''
       [python311, python31] =
     Inr \<lparr>product = ''python'', version = ''3.1'', found = True,
          cycle_info = Some python311, is_supported = False, is_eol = False\<rparr> \<and>
   python311 \<noteq> python31"
  by code_simp

text \<open>
  C8, as the code has it. A raw cycle without the \<open>cycle\<close> key fails the construction
  of its record with a \<open>ValidationError\<close>, and nothing skips it: the error ends
  \<^verbatim>\<open>get_product_versions\<close>, which returns no list, and it ends the
  \<^verbatim>\<open>check_support_status\<close> that asked for the list. When every raw cycle of the list
  constructs, all records are returned, in the order of the list.
\<close>

theorem missing_cycle_key_fails_the_fetch:
  "(product_json cat pname = Inr raws \<and> m \<in> set raws \<and> m ''cycle'' = None \<longrightarrow>
      CycleInfo_init m = Inl ValidationError \<and>
      get_product_versions cat pname = Inl ValidationError \<and>
      (cycle_json cat pname ver = Inl (HTTPStatusError 404) \<longrightarrow>
         check_support_status parse today cat pname ver = Inl ValidationError)) \<and>
   (product_json cat pname = Inr raws \<and>
    list_all2 (\<lambda>m c. CycleInfo_init m = Inr c) raws cs \<longrightarrow>
      get_product_versions cat pname =
        Inr \<lparr>pi_product = pname, versions = cs, count = length cs\<rparr>)"
proof -
  have fails: "get_product_versions cat pname = Inl ValidationError"
    if "product_json cat pname = Inr raws" and "m \<in> set raws" and "m ''cycle'' = None"
  proof -
    have "CycleInfo_init m = Inl ValidationError"
      using that(3) by (rule CycleInfo_init_missing_cycle)
    from convert_cycles_fails [OF that(2) this, of "[]"] that(1) show ?thesis
      by (simp add: get_product_versions_def)
  qed
  have status: "check_support_status parse today cat pname ver = Inl ValidationError"
    if "get_product_versions cat pname = Inl ValidationError"
      and "cycle_json cat pname ver = Inl (HTTPStatusError 404)"
    using that by (simp add: check_support_status_after_404)
  have all: "get_product_versions cat pname =
      Inr \<lparr>pi_product = pname, versions = cs, count = length cs\<rparr>"
    if "product_json cat pname = Inr raws"
      and "list_all2 (\<lambda>m c. CycleInfo_init m = Inr c) raws cs"
    using that convert_cycles_all [OF that(2), of "[]"]
    by (simp add: get_product_versions_def)
  from fails status all CycleInfo_init_missing_cycle show ?thesis
    by blast
qed

theorem missing_cycle_key_fails_the_fetch_witness:
  "product_json catalog_malformed ''nodejs'' = Inr [raw_no_cycle, raw_node18] \<and>
   raw_no_cycle \<in> set [raw_no_cycle, raw_node18] \<and> raw_no_cycle ''cycle'' = None \<and>
   cycle_json catalog_malformed ''nodejs'' ''18'' = Inl (HTTPStatusError 404) \<and>
   CycleInfo_init raw_no_cycle = Inl ValidationError \<and>
   get_product_versions catalog_malformed ''nodejs'' = Inl ValidationError \<and>
   check_support_status sample_fromisoformat new_year_2025 catalog_malformed ''nodejs'' ''18'' =
     Inl ValidationError \<and>
   product_json catalog_nodejs ''nodejs'' = Inr [raw_node18, raw_node21] \<and>
   list_all2 (\<lambda>m c. CycleInfo_init m = Inr c) [raw_node18, raw_node21] [node18, node21] \<and>
   get_product_versions catalog_nodejs ''nodejs'' =
     Inr \<lparr>pi_product = ''nodejs'', versions = [node18, node21], count = 2\<rparr>"
proof -
  have listed: "product_json catalog_malformed ''nodejs'' = Inr [raw_no_cycle, raw_node18]"
    by (simp add: catalog_malformed_def)
  have member: "raw_no_cycle \<in> set [raw_no_cycle, raw_node18]"
    by simp
  have missing: "raw_no_cycle ''cycle'' = None"
    by (simp add: raw_no_cycle_def)
  have gone: "cycle_json catalog_malformed ''nodejs'' ''18'' = Inl (HTTPStatusError 404)"
    by (simp add: catalog_malformed_def)
  have listed': "product_json catalog_nodejs ''nodejs'' = Inr [raw_node18, raw_node21]"
    by (simp add: catalog_nodejs_def)
  have good: "list_all2 (\<lambda>m c. CycleInfo_init m = Inr c) [raw_node18, raw_node21] [node18, node21]"
    by (simp add: sample_construction)
  note inst1 = missing_cycle_key_fails_the_fetch
    [where cat = catalog_malformed and pname = "''nodejs''"
       and raws = "[raw_no_cycle, raw_node18]" and m = raw_no_cycle and ver = "''18''"
       and parse = sample_fromisoformat and today = new_year_2025]
  note inst2 = missing_cycle_key_fails_the_fetch
    [where cat = catalog_nodejs and pname = "''nodejs''"
       and raws = "[raw_node18, raw_node21]" and cs = "[node18, node21]"]
  from inst1 listed member missing gone
  have bad: "CycleInfo_init raw_no_cycle = Inl ValidationError \<and>
      get_product_versions catalog_malformed ''nodejs'' = Inl ValidationError \<and>
      check_support_status sample_fromisoformat new_year_2025 catalog_malformed ''nodejs'' ''18'' =
        Inl ValidationError"
    by blast
  from inst2 listed' good
  have "get_product_versions catalog_nodejs ''nodejs'' =
      Inr \<lparr>pi_product = ''nodejs'', versions = [node18, node21],
           count = length [node18, node21]\<rparr>"
    by blast
  then have ok: "get_product_versions catalog_nodejs ''nodejs'' =
      Inr \<lparr>pi_product = ''nodejs'', versions = [node18, node21], count = 2\<rparr>"
    by simp
  from listed member missing gone bad listed' good ok show ?thesis
    by blast
qed

text \<open>
  C8, as the claim states it, fails: for a list whose first raw cycle has no \<open>cycle\<close>
  key and whose second one is well-formed, \<^verbatim>\<open>get_product_versions\<close> raises instead of
  returning the list of the well-formed record, and so does the status check.
\<close>

theorem skip_malformed_record_counterexample:
  "raw_no_cycle ''cycle'' = None \<and>
   CycleInfo_init raw_node18 = Inr node18 \<and>
   product_json catalog_malformed ''nodejs'' = Inr [raw_no_cycle, raw_node18] \<and>
   get_product_versions catalog_malformed ''nodejs'' = Inl ValidationError \<and>
   get_product_versions catalog_malformed ''nodejs'' \<noteq>
     Inr \<lparr>pi_product = ''nodejs'', versions = [node18], count = 1\<rparr> \<and>
   check_support_status sample_fromisoformat new_year_2025 catalog_malformed ''nodejs'' ''18'' =
     Inl ValidationError"
proof -
  have missing: "raw_no_cycle ''cycle'' = None"
    by (simp add: raw_no_cycle_def)
  have listed: "product_json catalog_malformed ''nodejs'' = Inr [raw_no_cycle, raw_node18]"
    by (simp add: catalog_malformed_def)
  have raised: "get_product_versions catalog_malformed ''nodejs'' = Inl ValidationError"
    by (simp add: get_product_versions_def listed sample_construction)
  have gone: "cycle_json catalog_malformed ''nodejs'' ''18'' = Inl (HTTPStatusError 404)"
    by (simp add: catalog_malformed_def)
  have status: "check_support_status sample_fromisoformat new_year_2025 catalog_malformed
      ''nodejs'' ''18'' = Inl ValidationError"
    by (simp add: check_support_status_after_404 [OF gone] raised)
  from missing listed raised status sample_construction(1) show ?thesis
    by simp
qed

end
